theory Spec2Isabelle
  imports Main "HOL-Library.Word"
begin

unbundle bit_operations_syntax

section \<open>pirevision: decoding Raspberry Pi revision codes\<close>

text \<open>
  A shallow embedding of \<^verbatim>\<open>pirevision.c\<close>. A revision code is the C type
  \<^verbatim>\<open>revcode_32\<close> (\<^verbatim>\<open>unsigned int\<close>), here a 32-bit word; \<^verbatim>\<open>>>\<close> is
  \<open>drop_bit\<close>, \<^verbatim>\<open><<\<close> is \<open>push_bit\<close>, \<^verbatim>\<open>&\<close> is \<open>AND\<close> and \<^verbatim>\<open>|\<close> is \<open>OR\<close>.
  C strings are \<open>string\<close>s without the terminating NUL.
\<close>

type_synonym revcode_32 = "32 word"

subsection \<open>The ways a call can fail to return\<close>

text \<open>
  \<open>ExitFailure\<close> is \<^verbatim>\<open>exit(EXIT_FAILURE)\<close> after the message
  \<^verbatim>\<open>Invalid old style revision!\<close>. \<open>ReadOutOfBounds\<close> is an array read at an index that
  the array does not have, \<open>WriteOutOfBounds\<close> a write beyond the caller's buffer: C
  gives them no meaning, and the model stops there.
\<close>

datatype error = ExitFailure | ReadOutOfBounds | WriteOutOfBounds

definition EXIT_SUCCESS :: int where
  "EXIT_SUCCESS = 0"

text \<open>\<^verbatim>\<open>a[i]\<close> for an array \<open>a\<close> of known extent and an \<^verbatim>\<open>int\<close> index.\<close>

definition array_read :: "'a list \<Rightarrow> int \<Rightarrow> error + 'a" where
  "array_read a i =
     (if 0 \<le> i \<and> i < int (length a) then Inr (a ! nat i) else Inl ReadOutOfBounds)"

text \<open>
  The value conversions the code relies on: \<^verbatim>\<open>unsigned int\<close> to \<^verbatim>\<open>int\<close> (two's
  complement, as every supported compiler does it), and \<^verbatim>\<open>int\<close> to \<^verbatim>\<open>size_t\<close> for a
  comparison with \<^verbatim>\<open>ARRAY_CNT\<close> (modulo \<open>2 ^ 64\<close>; with a 32-bit \<^verbatim>\<open>size_t\<close> the
  result is the same on every value that occurs).
\<close>

definition int_of_unsigned :: "32 word \<Rightarrow> int" where
  "int_of_unsigned w = sint w"

definition size_t_of_int :: "int \<Rightarrow> nat" where
  "size_t_of_int i = nat (i mod 2 ^ 64)"

subsection \<open>The field macros\<close>

definition SONY_UK :: "32 word" where "SONY_UK = push_bit 16 0"
definition EGOMAN :: "32 word" where "EGOMAN = push_bit 16 1"
definition EMBEST :: "32 word" where "EMBEST = push_bit 16 2"
definition SONY_JAPAN :: "32 word" where "SONY_JAPAN = push_bit 16 3"
definition STADIUM :: "32 word" where "STADIUM = push_bit 16 5"
definition QISDA :: "32 word" where "QISDA = push_bit 16 0xF"

definition MEM_256M :: "32 word" where "MEM_256M = push_bit 20 0"
definition MEM_512M :: "32 word" where "MEM_512M = push_bit 20 1"
definition MEM_1G :: "32 word" where "MEM_1G = push_bit 20 2"
definition MEM_2G :: "32 word" where "MEM_2G = push_bit 20 3"
definition MEM_4G :: "32 word" where "MEM_4G = push_bit 20 4"
definition MEM_8G :: "32 word" where "MEM_8G = push_bit 20 5"

definition MODEL_A :: "32 word" where "MODEL_A = push_bit 4 0"
definition MODEL_B :: "32 word" where "MODEL_B = push_bit 4 1"
definition MODEL_APLUS :: "32 word" where "MODEL_APLUS = push_bit 4 2"
definition MODEL_BPLUS :: "32 word" where "MODEL_BPLUS = push_bit 4 3"
definition MODEL_CM1 :: "32 word" where "MODEL_CM1 = push_bit 4 6"

text \<open>The source defines every one of \<^verbatim>\<open>REV_1_0\<close> to \<^verbatim>\<open>REV_1_5\<close> as \<^verbatim>\<open>(0 << 0)\<close>.\<close>

definition REV_1_0 :: "32 word" where "REV_1_0 = push_bit 0 0"
definition REV_1_1 :: "32 word" where "REV_1_1 = push_bit 0 0"
definition REV_1_2 :: "32 word" where "REV_1_2 = push_bit 0 0"
definition REV_1_3 :: "32 word" where "REV_1_3 = push_bit 0 0"
definition REV_1_4 :: "32 word" where "REV_1_4 = push_bit 0 0"
definition REV_1_5 :: "32 word" where "REV_1_5 = push_bit 0 0"
definition REV_2_0 :: "32 word" where "REV_2_0 = push_bit 0 0xF"

definition OLD_REV_NOT_VALID :: "32 word" where "OLD_REV_NOT_VALID = 0xFFFFFFFF"

subsection \<open>Lookup with a substitute for one index\<close>

text \<open>
  \<^verbatim>\<open>lut_to_str_with_invalid\<close>: \<open>lut_count\<close> and \<open>index\<close> are \<^verbatim>\<open>int\<close>s, the substitute
  string is a pointer that may be \<^verbatim>\<open>NULL\<close> (\<open>None\<close>). The only test before \<^verbatim>\<open>lut[index]\<close>
  is \<^verbatim>\<open>index < lut_count\<close>.
\<close>

definition lut_to_str_with_invalid ::
  "string list \<Rightarrow> int \<Rightarrow> int \<Rightarrow> int \<Rightarrow> string option \<Rightarrow> error + string" where
  "lut_to_str_with_invalid lut lut_count index invalid_index invalid_index_str =
     (if index < lut_count then array_read lut index
      else if invalid_index_str \<noteq> None \<and> index = invalid_index
           then Inr (the invalid_index_str)
      else Inr ''???'')"

definition lut_to_str :: "string list \<Rightarrow> int \<Rightarrow> int \<Rightarrow> error + string" where
  "lut_to_str lut lut_count index = lut_to_str_with_invalid lut lut_count index 0 None"

definition ARRAY_CNT :: "'a list \<Rightarrow> nat" where
  "ARRAY_CNT a = length a"

subsection \<open>Flags\<close>

text \<open>The C functions return the \<^verbatim>\<open>int\<close> value of a comparison, \<open>1\<close> or \<open>0\<close>: a \<open>bool\<close>.\<close>

definition overvoltage_allowed :: "revcode_32 \<Rightarrow> bool" where
  "overvoltage_allowed revision_code \<longleftrightarrow> (drop_bit 31 revision_code AND 0x1) = 0"

definition overvoltage_allowed_str :: "revcode_32 \<Rightarrow> string" where
  "overvoltage_allowed_str revision_code =
     (if overvoltage_allowed revision_code then ''Allowed'' else ''Disallowed'')"

definition otp_programming_allowed :: "revcode_32 \<Rightarrow> bool" where
  "otp_programming_allowed revision_code \<longleftrightarrow> (drop_bit 30 revision_code AND 0x1) = 0"

definition otp_reading_allowed :: "revcode_32 \<Rightarrow> bool" where
  "otp_reading_allowed revision_code \<longleftrightarrow> (drop_bit 29 revision_code AND 0x1) = 0"

definition otp_programming_allowed_str :: "revcode_32 \<Rightarrow> string" where
  "otp_programming_allowed_str revision_code =
     (if otp_programming_allowed revision_code then ''Allowed'' else ''Disallowed'')"

definition otp_reading_allowed_str :: "revcode_32 \<Rightarrow> string" where
  "otp_reading_allowed_str revision_code =
     (if otp_reading_allowed revision_code then ''Allowed'' else ''Disallowed'')"

definition warranty_intact :: "revcode_32 \<Rightarrow> bool" where
  "warranty_intact revision_code \<longleftrightarrow> (drop_bit 25 revision_code AND 0x1) = 0"

definition warranty_intact_str :: "revcode_32 \<Rightarrow> string" where
  "warranty_intact_str revision_code =
     (if warranty_intact revision_code then ''Intact'' else ''Voided'')"

definition revision_new_style :: "revcode_32 \<Rightarrow> bool" where
  "revision_new_style revision_code \<longleftrightarrow> (drop_bit 23 revision_code AND 0x1) = 1"

subsection \<open>Old style codes\<close>

text \<open>
  The table is a \<^verbatim>\<open>static int[]\<close>; its entries are read back into a \<^verbatim>\<open>revcode_32\<close>,
  so each is kept as the 32-bit pattern it has (\<^verbatim>\<open>OLD_REV_NOT_VALID\<close> is all ones).
\<close>

definition old_revision_map :: "32 word list" where
  "old_revision_map =
     [ OLD_REV_NOT_VALID,
       OLD_REV_NOT_VALID,
       MODEL_B OR REV_1_0 OR MEM_256M OR EGOMAN,
       MODEL_B OR REV_1_0 OR MEM_256M OR EGOMAN,
       MODEL_B OR REV_2_0 OR MEM_256M OR SONY_UK,
       MODEL_B OR REV_2_0 OR MEM_256M OR QISDA,
       MODEL_B OR REV_2_0 OR MEM_256M OR EGOMAN,
       MODEL_A OR REV_2_0 OR MEM_256M OR EGOMAN,
       MODEL_A OR REV_2_0 OR MEM_256M OR SONY_UK,
       MODEL_A OR REV_2_0 OR MEM_256M OR QISDA,
       OLD_REV_NOT_VALID,
       OLD_REV_NOT_VALID,
       OLD_REV_NOT_VALID,
       MODEL_B OR REV_2_0 OR MEM_512M OR EGOMAN,
       MODEL_B OR REV_2_0 OR MEM_512M OR SONY_UK,
       MODEL_B OR REV_2_0 OR MEM_512M OR EGOMAN,
       MODEL_BPLUS OR REV_1_2 OR MEM_512M OR SONY_UK,
       MODEL_CM1 OR REV_1_0 OR MEM_512M OR SONY_UK,
       MODEL_APLUS OR REV_1_1 OR MEM_256M OR SONY_UK,
       MODEL_BPLUS OR REV_1_2 OR MEM_512M OR EMBEST,
       MODEL_CM1 OR REV_1_0 OR MEM_512M OR EMBEST,
       MODEL_APLUS OR REV_1_1 OR MEM_256M OR EMBEST ]"

definition map_old_to_new :: "revcode_32 \<Rightarrow> error + revcode_32" where
  "map_old_to_new revision_code =
     (if \<not> revision_new_style revision_code then
        (let new_revision_code =
               (if unat revision_code < ARRAY_CNT old_revision_map
                then old_revision_map ! unat revision_code
                else OLD_REV_NOT_VALID)
         in if new_revision_code = OLD_REV_NOT_VALID then Inl ExitFailure
            else Inr new_revision_code)
      else Inr revision_code)"

subsection \<open>Categorical fields\<close>

definition type_index :: "revcode_32 \<Rightarrow> 32 word" where
  "type_index revision_code = drop_bit 4 revision_code AND 0xFF"

definition type_map :: "string list" where
  "type_map =
     [ ''A'', ''B'', ''A+'', ''B+'', ''2B'', ''Alpha'', ''CM1'', ''0x07'', ''3B'', ''Zero'',
       ''CM3'', ''0x0B'', ''Zero W'', ''3B+'', ''3A+'', ''Internal use only'', ''CM3+'',
       ''4B'', ''Zero 2 W'', ''400'', ''CM4'', ''CM4S'' ]"

definition type_str :: "revcode_32 \<Rightarrow> error + string" where
  "type_str revision_code =
     lut_to_str type_map (int (ARRAY_CNT type_map)) (int_of_unsigned (type_index revision_code))"

definition processor_index :: "revcode_32 \<Rightarrow> 32 word" where
  "processor_index revision_code = drop_bit 12 revision_code AND 0xF"

definition processor_map :: "string list" where
  "processor_map = [ ''BCM2835'', ''BCM2836'', ''BCM2837'', ''BCM2711'' ]"

definition processor_str :: "revcode_32 \<Rightarrow> error + string" where
  "processor_str revision_code =
     lut_to_str processor_map (int (ARRAY_CNT processor_map))
       (int_of_unsigned (processor_index revision_code))"

definition manufacturer_index :: "revcode_32 \<Rightarrow> 32 word" where
  "manufacturer_index revision_code = drop_bit 16 revision_code AND 0xF"

definition manufacturer_map :: "string list" where
  "manufacturer_map =
     [ ''Sony UK'', ''Egoman'', ''Embest'', ''Sony Japan'', ''Embest'', ''Stadium'' ]"

definition manufacturer_str :: "revcode_32 \<Rightarrow> error + string" where
  "manufacturer_str revision_code =
     (let index = int_of_unsigned (manufacturer_index revision_code)
      in lut_to_str_with_invalid manufacturer_map (int (ARRAY_CNT manufacturer_map)) index
           (int_of_unsigned (drop_bit 16 QISDA)) (Some ''Qisda''))"

definition revision_index :: "revcode_32 \<Rightarrow> 32 word" where
  "revision_index revision_code = drop_bit 0 revision_code AND 0xF"

definition revision_map :: "string list" where
  "revision_map = [ ''1.0'', ''1.1'', ''1.2'', ''1.3'', ''1.4'', ''1.5'' ]"

definition revision_str :: "revcode_32 \<Rightarrow> error + string" where
  "revision_str revision_code =
     (let index = int_of_unsigned (revision_index revision_code)
      in lut_to_str_with_invalid revision_map (int (ARRAY_CNT revision_map)) index
           (int_of_unsigned (drop_bit 0 REV_2_0)) (Some ''2.0''))"

subsection \<open>Memory\<close>

definition physical_memory_index :: "revcode_32 \<Rightarrow> 32 word" where
  "physical_memory_index revision_code = drop_bit 20 revision_code AND 0x7"

definition mem_mbytes_map :: "32 word list" where
  "mem_mbytes_map = [ 256, 512, 1 * 1024, 2 * 1024, 4 * 1024, 8 * 1024 ]"

text \<open>
  \<^verbatim>\<open>(index > ARRAY_CNT(mem_mbytes_map)) ? 0 : mem_mbytes_map[index]\<close>, with the
  \<^verbatim>\<open>int\<close> index converted to \<^verbatim>\<open>size_t\<close> for the comparison.
\<close>

definition physical_memory_mbytes :: "revcode_32 \<Rightarrow> error + 32 word" where
  "physical_memory_mbytes revision_code =
     (let index = int_of_unsigned (physical_memory_index revision_code)
      in if size_t_of_int index > ARRAY_CNT mem_mbytes_map then Inr 0
         else array_read mem_mbytes_map index)"

text \<open>
  The C library's conversions, for the values the program prints: \<^verbatim>\<open>%d\<close> writes a
  signed decimal number with no padding (the argument is an \<^verbatim>\<open>unsigned int\<close> read as
  an \<^verbatim>\<open>int\<close>), \<^verbatim>\<open>%0X\<close> an unsigned number in upper-case hexadecimal with no
  padding, and \<^verbatim>\<open>%-16s\<close> a string followed by blanks up to 16 characters.
\<close>

fun dec_digits :: "nat \<Rightarrow> string" where
  "dec_digits n =
     (if n < 10 then [''0123456789'' ! n]
      else dec_digits (n div 10) @ [''0123456789'' ! (n mod 10)])"

fun hex_digits :: "nat \<Rightarrow> string" where
  "hex_digits n =
     (if n < 16 then [''0123456789ABCDEF'' ! n]
      else hex_digits (n div 16) @ [''0123456789ABCDEF'' ! (n mod 16)])"

definition printf_d :: "32 word \<Rightarrow> string" where
  "printf_d w =
     (let i = int_of_unsigned w
      in if i < 0 then ''-'' @ dec_digits (nat (- i)) else dec_digits (nat i))"

definition printf_X :: "32 word \<Rightarrow> string" where
  "printf_X w = hex_digits (unat w)"

definition printf_left16 :: "string \<Rightarrow> string" where
  "printf_left16 s = s @ replicate (16 - length s) CHR '' ''"

text \<open>
  The contents of the local \<^verbatim>\<open>result_str\<close> of \<^verbatim>\<open>physical_memory_str\<close> once the
  megabytes are known: the buffer starts out empty and at most one \<^verbatim>\<open>sprintf\<close> writes
  to it.
\<close>

definition result_str :: "32 word \<Rightarrow> string" where
  "result_str mega_bytes =
     (if mega_bytes \<ge> 1024 then
        (let giga_bytes = drop_bit 10 mega_bytes
         in if giga_bytes \<le> 9999 then printf_d giga_bytes @ ''GB'' else [])
      else printf_d mega_bytes @ ''MB'')"

text \<open>
  \<^verbatim>\<open>strncpy(result, result_str, result_size - 1)\<close> and the terminating NUL at
  \<^verbatim>\<open>result[result_size - 1]\<close>. With \<^verbatim>\<open>result_size = 0\<close> the count wraps around to
  \<^verbatim>\<open>SIZE_MAX\<close> and \<^verbatim>\<open>strncpy\<close> pads far beyond the buffer.
\<close>

definition physical_memory_str :: "revcode_32 \<Rightarrow> nat \<Rightarrow> error + string" where
  "physical_memory_str revision_code result_size =
     (case physical_memory_mbytes revision_code of
        Inl e \<Rightarrow> Inl e
      | Inr mega_bytes \<Rightarrow>
          if result_size = 0 then Inl WriteOutOfBounds
          else Inr (take (result_size - 1) (result_str mega_bytes)))"

subsection \<open>Printing\<close>

text \<open>
  Standard output is the list of the lines printed, each without its newline. A line
  whose arguments cannot be computed is the error that stops the program there; the
  lines before it have been printed.
\<close>

fun print_lines :: "(error + string) list \<Rightarrow> string list \<times> (error + int)" where
  "print_lines [] = ([], Inr EXIT_SUCCESS)"
| "print_lines (Inl e # rest) = ([], Inl e)"
| "print_lines (Inr l # rest) = (l # fst (print_lines rest), snd (print_lines rest))"

definition field_format :: "string \<Rightarrow> string \<Rightarrow> string" where
  "field_format label v = ''    '' @ printf_left16 label @ '': '' @ v"

definition print_revision_text :: "revcode_32 \<Rightarrow> string list \<times> (error + int)" where
  "print_revision_text revision_code =
     (let header = ''Revision code 0x'' @ printf_X revision_code @ '' interpreted:''
      in case map_old_to_new revision_code of
           Inl e \<Rightarrow> ([header], Inl e)
         | Inr code \<Rightarrow>
             (let new_style = revision_new_style code;
                  body = print_lines
                    ([Inr (field_format ''Style'' (if new_style then ''New'' else ''Old''))]
                     @ (if new_style then
                          [Inr (field_format ''Overvoltage'' (overvoltage_allowed_str code)),
                           Inr (field_format ''OTP Programming''
                                  (otp_programming_allowed_str code)),
                           Inr (field_format ''OTP Reading'' (otp_reading_allowed_str code)),
                           Inr (field_format ''Warranty'' (warranty_intact_str code))]
                        else [])
                     @ [map_sum id (field_format ''Type/Model'') (type_str code),
                        map_sum id (field_format ''Revision'') (revision_str code)]
                     @ (if new_style then
                          [map_sum id (field_format ''Processor/SOC'') (processor_str code)]
                        else [])
                     @ [map_sum id (field_format ''Memory'') (physical_memory_str code 8),
                        map_sum id (field_format ''Manufacturer'') (manufacturer_str code)])
              in (header # fst body, snd body)))"

definition bool_json :: "bool \<Rightarrow> string" where
  "bool_json v = (if v then ''true'' else ''false'')"

definition json_field_format :: "string \<Rightarrow> string \<Rightarrow> string \<Rightarrow> string" where
  "json_field_format k v sep = ''    '' @ k @ '': '' @ v @ sep"

definition str_field_format :: "string \<Rightarrow> string \<Rightarrow> string \<Rightarrow> string" where
  "str_field_format k v sep = ''    '' @ k @ '': '' @ [CHR 0x22] @ v @ [CHR 0x22] @ sep"

definition print_revision_json :: "revcode_32 \<Rightarrow> string list \<times> (error + int)" where
  "print_revision_json revision_code =
     (case map_old_to_new revision_code of
        Inl e \<Rightarrow> ([], Inl e)
      | Inr code \<Rightarrow>
          (let new_style = revision_new_style code;
               hex_revision = ''0x'' @ printf_X revision_code
           in print_lines
                ([Inr ''{'',
                  Inr (str_field_format ''revision_code'' hex_revision '',''),
                  Inr (str_field_format ''style'' (if new_style then ''new'' else ''old'') '','')]
                 @ (if new_style then
                      [Inr (json_field_format ''overvoltage_allowed''
                              (bool_json (overvoltage_allowed code)) '',''),
                       Inr (json_field_format ''otp_programming_allowed''
                              (bool_json (otp_programming_allowed code)) '',''),
                       Inr (json_field_format ''otp_reading_allowed''
                              (bool_json (otp_reading_allowed code)) '',''),
                       Inr (json_field_format ''warranty_intact''
                              (bool_json (warranty_intact code)) '','')]
                    else [])
                 @ [map_sum id (\<lambda>v. str_field_format ''type'' v '','') (type_str code),
                    map_sum id (\<lambda>v. str_field_format ''revision'' v '','') (revision_str code)]
                 @ (if new_style then
                      [map_sum id (\<lambda>v. str_field_format ''processor'' v '','')
                         (processor_str code)]
                    else [])
                 @ [map_sum id (\<lambda>v. str_field_format ''memory'' v '','')
                      (physical_memory_str code 8),
                    map_sum id (\<lambda>v. str_field_format ''manufacturer'' v [])
                      (manufacturer_str code),
                    Inr ''}''])))"

subsection \<open>Reading the output back\<close>

text \<open>
  What a decimal numeral denotes, to state that the digits printed for a number are
  that number's; and the slots of the old style table that hold a revision code.
\<close>

definition digit_value :: "char \<Rightarrow> nat" where
  "digit_value ch = of_char ch - 48"

definition dec_value :: "string \<Rightarrow> nat" where
  "dec_value s = foldl (\<lambda>a ch. 10 * a + digit_value ch) 0 s"

definition populated_slots :: "nat list" where
  "populated_slots =
     filter (\<lambda>i. old_revision_map ! i \<noteq> OLD_REV_NOT_VALID) [0..<ARRAY_CNT old_revision_map]"

declare dec_digits.simps [simp del] hex_digits.simps [simp del]

section \<open>Evaluating the macros and tables\<close>

lemmas macro_defs =
  SONY_UK_def EGOMAN_def EMBEST_def SONY_JAPAN_def STADIUM_def QISDA_def
  MEM_256M_def MEM_512M_def MEM_1G_def MEM_2G_def MEM_4G_def MEM_8G_def
  MODEL_A_def MODEL_B_def MODEL_APLUS_def MODEL_BPLUS_def MODEL_CM1_def
  REV_1_0_def REV_1_1_def REV_1_2_def REV_1_3_def REV_1_4_def REV_1_5_def REV_2_0_def
  OLD_REV_NOT_VALID_def

lemma old_revision_map_values:
  "old_revision_map =
     [0xFFFFFFFF, 0xFFFFFFFF, 0x10010, 0x10010, 0x1F, 0xF001F, 0x1001F, 0x1000F, 0xF, 0xF000F,
      0xFFFFFFFF, 0xFFFFFFFF, 0xFFFFFFFF, 0x11001F, 0x10001F, 0x11001F, 0x100030, 0x100060,
      0x20, 0x120030, 0x120060, 0x20020]"
  by (simp add: old_revision_map_def macro_defs)

lemma set_old_revision_map:
  "set old_revision_map =
     {0xFFFFFFFF, 0x10010, 0x1F, 0xF001F, 0x1001F, 0x1000F, 0xF, 0xF000F, 0x11001F, 0x10001F,
      0x100030, 0x100060, 0x20, 0x120030, 0x120060, 0x20020}"
  by (auto simp: old_revision_map_values)

lemma length_old_revision_map: "length old_revision_map = 22"
  by (simp add: old_revision_map_def)

section \<open>Bits, conversions and decimal numerals\<close>

lemma and_one_zero_iff: "(drop_bit n (w :: 32 word) AND 1) = 0 \<longleftrightarrow> \<not> bit w n"
  by (simp add: and_one_eq bit_iff_odd_drop_bit mod_2_eq_odd)

lemma and_one_one_iff: "(drop_bit n (w :: 32 word) AND 1) = 1 \<longleftrightarrow> bit w n"
  by (simp add: and_one_eq bit_iff_odd_drop_bit mod_2_eq_odd)

lemma sint_small:
  assumes "uint (w :: 32 word) < 2147483648"
  shows "sint w = uint w"
proof -
  from assms have "uint w < 2 ^ 31" by simp
  moreover have "- (2 ^ 31) \<le> uint w" by (rule order_trans [of _ 0]) simp_all
  ultimately have "signed_take_bit 31 (uint w) = uint w"
    by (rule signed_take_bit_int_eq_self [rotated])
  then show ?thesis by (simp add: sint_uint)
qed

lemma int_of_unsigned_small:
  assumes "unat (w :: 32 word) < 2147483648"
  shows "int_of_unsigned w = int (unat w)"
proof -
  from assms have "int (unat w) < 2147483648" by linarith
  then have "uint w < 2147483648" unfolding uint_nat .
  then have "sint w = uint w" by (rule sint_small)
  then show ?thesis unfolding int_of_unsigned_def uint_nat .
qed

lemma field_le: "unat ((x :: 32 word) AND m) \<le> unat m"
  by (rule word_and_le1 [THEN word_le_nat_alt [THEN iffD1]])

lemma nat10_cases: "n < 10 \<Longrightarrow> n \<in> {0,1,2,3,4,5,6,7,8,9::nat}"
  by auto

lemma digit_value_digit: "n < 10 \<Longrightarrow> digit_value (''0123456789'' ! n) = n"
  by (drule nat10_cases) (auto simp: digit_value_def)

lemma digit_in: "n < 10 \<Longrightarrow> ''0123456789'' ! n \<in> set ''0123456789''"
  by (rule nth_mem) simp

lemma dec_value_snoc: "dec_value (s @ [ch]) = 10 * dec_value s + digit_value ch"
  by (simp add: dec_value_def)

lemma dec_digits_nonempty: "dec_digits n \<noteq> []"
  by (subst dec_digits.simps) simp

lemma dec_value_dec_digits: "dec_value (dec_digits n) = n"
proof (induction n rule: dec_digits.induct)
  case (1 n)
  show ?case
  proof (cases "n < 10")
    case True
    then show ?thesis
      by (subst dec_digits.simps) (simp add: dec_value_def digit_value_digit)
  next
    case False
    with 1 have "dec_value (dec_digits (n div 10)) = n div 10" by simp
    with False show ?thesis
      by (subst dec_digits.simps) (simp add: dec_value_snoc digit_value_digit)
  qed
qed

lemma dec_digits_digits: "set (dec_digits n) \<subseteq> set ''0123456789''"
proof (induction n rule: dec_digits.induct)
  case (1 n)
  show ?case
  proof (cases "n < 10")
    case True
    then show ?thesis
      using digit_in [of n] by (subst dec_digits.simps) simp
  next
    case False
    with 1 have "set (dec_digits (n div 10)) \<subseteq> set ''0123456789''" by simp
    with False show ?thesis
      using digit_in [of "n mod 10"] by (subst dec_digits.simps) simp
  qed
qed

lemma dec_digits_no_leading_zero: "0 < n \<Longrightarrow> hd (dec_digits n) \<noteq> CHR ''0''"
proof (induction n rule: dec_digits.induct)
  case (1 n)
  show ?case
  proof (cases "n < 10")
    case True
    with \<open>0 < n\<close> have "n \<in> {1,2,3,4,5,6,7,8,9}" by auto
    then show ?thesis
      by (subst dec_digits.simps) auto
  next
    case False
    then have "0 < n div 10" by simp
    with 1 False have "hd (dec_digits (n div 10)) \<noteq> CHR ''0''" by simp
    with False show ?thesis
      by (subst dec_digits.simps) (simp add: dec_digits_nonempty)
  qed
qed

lemma length_dec_digits: "0 < k \<Longrightarrow> n < 10 ^ k \<Longrightarrow> length (dec_digits n) \<le> k"
proof (induction n arbitrary: k rule: dec_digits.induct)
  case (1 n)
  show ?case
  proof (cases "n < 10")
    case True
    with \<open>0 < k\<close> show ?thesis
      by (subst dec_digits.simps) simp
  next
    case False
    obtain j where k: "k = Suc j" using \<open>0 < k\<close> by (cases k) auto
    have "0 < j"
    proof (rule ccontr)
      assume "\<not> 0 < j"
      with k \<open>n < 10 ^ k\<close> False show False by simp
    qed
    moreover have "n div 10 < 10 ^ j" using \<open>n < 10 ^ k\<close> k by (simp add: less_mult_imp_div_less)
    ultimately have "length (dec_digits (n div 10)) \<le> j" using 1 False by simp
    with False k show ?thesis
      by (subst dec_digits.simps) simp
  qed
qed

lemma printf_d_small: "unat w < 2147483648 \<Longrightarrow> printf_d w = dec_digits (unat w)"
  by (simp add: printf_d_def int_of_unsigned_small Let_def)

lemma result_str_eq:
  "result_str m =
     (if 1024 \<le> unat m then
        (if unat m div 1024 \<le> 9999 then dec_digits (unat m div 1024) @ ''GB'' else [])
      else dec_digits (unat m) @ ''MB'')"
proof -
  have g: "unat (drop_bit 10 m) = unat m div 1024"
    by (simp add: unat_drop_bit_eq drop_bit_eq_div unat_div)
  show ?thesis
  proof (cases "1024 \<le> unat m")
    case True
    then have "1024 \<le> m" by (simp add: word_le_nat_alt)
    then show ?thesis using True g
      by (simp add: result_str_def Let_def word_le_nat_alt printf_d_small)
  next
    case False
    then have "\<not> 1024 \<le> m" by (simp add: word_le_nat_alt)
    then show ?thesis using False
      by (simp add: result_str_def printf_d_small)
  qed
qed

lemma length_result_str: "length (result_str m) \<le> 6"
proof -
  have a: "n \<le> 9999 \<Longrightarrow> length (dec_digits n) \<le> 4" for n
    by (rule length_dec_digits) simp_all
  show ?thesis
    unfolding result_str_eq using a [of "unat m div 1024"] a [of "unat m"] by simp
qed

lemma word_small_cases:
  assumes "unat (c :: 32 word) < 22"
  shows "c \<in> {0,1,2,3,4,5,6,7,8,9,10,11,12,13,14,15,16,17,18,19,20,21}"
proof -
  have "[0..<22] = [0,1,2,3,4,5,6,7,8,9,10,11,12,13,14,15,16,17,18,19,20,21]"
    by (simp add: upt_rec)
  moreover have "unat c \<in> set [0..<22]" using assms by simp
  ultimately have "unat c \<in> {0,1,2,3,4,5,6,7,8,9,10,11,12,13,14,15,16,17,18,19,20,21}"
    by simp
  then have "(of_nat (unat c) :: 32 word) \<in>
      of_nat ` {0,1,2,3,4,5,6,7,8,9,10,11,12,13,14,15,16,17,18,19,20,21}"
    by (rule imageI)
  then show ?thesis by simp
qed

lemma int_of_unsigned_field:
  assumes "unat m < 2147483648"
  shows "int_of_unsigned (x AND m) = uint (x AND m)"
proof -
  have "int_of_unsigned (x AND m) = int (unat (x AND m))"
    by (rule int_of_unsigned_small) (use field_le [of x m] assms in linarith)
  then show ?thesis by simp
qed

lemma size_t_of_int_uint: "size_t_of_int (uint (w :: 32 word)) = unat w"
proof -
  have "uint w < 2 ^ 32" using uint_bounded [of w] by simp
  then have "uint w < 2 ^ 64" by simp
  then have "uint w mod 2 ^ 64 = uint w" by simp
  then show ?thesis by (simp add: size_t_of_int_def)
qed

lemma physical_memory_index_le: "unat (physical_memory_index c) \<le> 7"
  unfolding physical_memory_index_def using field_le [of "drop_bit 20 c" 7] by simp

lemma physical_memory_mbytes_eq:
  "physical_memory_mbytes c =
     (if 6 < unat (physical_memory_index c) then Inr 0
      else if unat (physical_memory_index c) < 6
           then Inr (mem_mbytes_map ! unat (physical_memory_index c))
      else Inl ReadOutOfBounds)"
proof -
  have i: "int_of_unsigned (physical_memory_index c) = uint (physical_memory_index c)"
    unfolding physical_memory_index_def by (rule int_of_unsigned_field) simp
  have l: "length mem_mbytes_map = 6" by (simp add: mem_mbytes_map_def)
  have u: "uint (physical_memory_index c) < 6 \<longleftrightarrow> unat (physical_memory_index c) < 6"
    using word_less_def [of "physical_memory_index c" 6]
      word_less_nat_alt [of "physical_memory_index c" 6] by simp
  show ?thesis
    unfolding physical_memory_mbytes_def Let_def i size_t_of_int_uint ARRAY_CNT_def
      array_read_def l
    by (simp add: u)
qed

lemma physical_memory_str_eq:
  "physical_memory_mbytes c = Inr m \<Longrightarrow> physical_memory_str c 8 = Inr (result_str m)"
  using length_result_str [of m] by (simp add: physical_memory_str_def)

section \<open>Old style codes are looked up, new style codes are kept\<close>

text \<open>
  Claim C1. A code with bit 23 set is returned as it is. A code with bit 23 clear is an
  index into the table of 22 old style codes: \<^verbatim>\<open>map_old_to_new\<close> ends the program
  with \<^verbatim>\<open>exit(EXIT_FAILURE)\<close> exactly when the index is beyond the table or the entry
  is \<^verbatim>\<open>OLD_REV_NOT_VALID\<close>, and returns the entry otherwise.
\<close>

theorem map_old_to_new_cases:
  "length old_revision_map = 22 \<and>
   map_old_to_new c =
     (if bit c 23 then Inr c
      else if length old_revision_map \<le> unat c \<or>
              old_revision_map ! unat c = OLD_REV_NOT_VALID
           then Inl ExitFailure
      else Inr (old_revision_map ! unat c))"
  by (simp add: length_old_revision_map map_old_to_new_def revision_new_style_def
      and_one_one_iff ARRAY_CNT_def Let_def)

section \<open>The polarity of the flags\<close>

text \<open>
  Claim C6. Each of the four flag accessors is true exactly when its bit of the code
  (31, 30, 29 and 25) is 0, and the string accessors render a clear bit as
  \<^verbatim>\<open>Allowed\<close> or \<^verbatim>\<open>Intact\<close> and a set bit as \<^verbatim>\<open>Disallowed\<close> or \<^verbatim>\<open>Voided\<close>.
\<close>

theorem permission_flags_polarity:
  "(overvoltage_allowed c \<longleftrightarrow> \<not> bit c 31) \<and>
   (otp_programming_allowed c \<longleftrightarrow> \<not> bit c 30) \<and>
   (otp_reading_allowed c \<longleftrightarrow> \<not> bit c 29) \<and>
   (warranty_intact c \<longleftrightarrow> \<not> bit c 25) \<and>
   overvoltage_allowed_str c = (if bit c 31 then ''Disallowed'' else ''Allowed'') \<and>
   otp_programming_allowed_str c = (if bit c 30 then ''Disallowed'' else ''Allowed'') \<and>
   otp_reading_allowed_str c = (if bit c 29 then ''Disallowed'' else ''Allowed'') \<and>
   warranty_intact_str c = (if bit c 25 then ''Voided'' else ''Intact'')"
  by (simp add: overvoltage_allowed_def otp_programming_allowed_def otp_reading_allowed_def
      warranty_intact_def overvoltage_allowed_str_def otp_programming_allowed_str_def
      otp_reading_allowed_str_def warranty_intact_str_def and_one_zero_iff)

section \<open>Accepted old style codes stay old style\<close>

lemma old_style_value:
  assumes "\<not> revision_new_style c" and "map_old_to_new c = Inr v"
  shows "v \<in> {0x10010, 0x1F, 0xF001F, 0x1001F, 0x1000F, 0xF, 0xF000F, 0x11001F, 0x10001F,
               0x100030, 0x100060, 0x20, 0x120030, 0x120060, 0x20020}"
proof -
  from assms have lt: "unat c < length old_revision_map"
    and v: "v = old_revision_map ! unat c" and nv: "v \<noteq> OLD_REV_NOT_VALID"
    by (auto simp: map_old_to_new_def ARRAY_CNT_def Let_def split: if_splits)
  from lt v have "v \<in> set old_revision_map" by simp
  with nv show ?thesis
    unfolding set_old_revision_map OLD_REV_NOT_VALID_def by simp
qed

lemma style_old_line: "field_format ''Style'' ''Old'' = ''    Style           : Old''"
  by code_simp

text \<open>
  Claim C10. Whenever an old style code is accepted, the code it is mapped to has bit 23
  clear: \<^verbatim>\<open>revision_new_style\<close> is false of it, the text and the JSON output report
  the style as old, and \<^verbatim>\<open>map_old_to_new\<close> does not return it unchanged when
  applied to it again (it either exits or, as for \<open>0xF\<close>, maps it to yet another code).
\<close>

theorem old_style_stays_old:
  assumes "\<not> revision_new_style c" and "map_old_to_new c = Inr v"
  shows "\<not> bit v 23 \<and> \<not> revision_new_style v \<and> map_old_to_new v \<noteq> Inr v \<and>
         fst (print_revision_text c) ! 1 = ''    Style           : Old'' \<and>
         fst (print_revision_json c) ! 2 =
           ''    style: '' @ [CHR 0x22] @ ''old'' @ [CHR 0x22] @ '',''"
proof -
  have v: "v \<in> {0x10010, 0x1F, 0xF001F, 0x1001F, 0x1000F, 0xF, 0xF000F, 0x11001F, 0x10001F,
               0x100030, 0x100060, 0x20, 0x120030, 0x120060, 0x20020}"
    using assms by (rule old_style_value)
  then have b: "\<not> bit v 23"
    by (elim insertE emptyE) simp_all
  then have n: "\<not> revision_new_style v"
    by (simp add: revision_new_style_def and_one_one_iff)
  have m: "map_old_to_new v \<noteq> Inr v"
    using v
    by (elim insertE emptyE)
      (simp_all add: revision_new_style_def map_old_to_new_def ARRAY_CNT_def
        old_revision_map_values OLD_REV_NOT_VALID_def)
  have t: "fst (print_revision_text c) ! 1 = ''    Style           : Old''"
    by (simp add: print_revision_text_def assms n Let_def style_old_line)
  have j: "fst (print_revision_json c) ! 2 =
      ''    style: '' @ [CHR 0x22] @ ''old'' @ [CHR 0x22] @ '',''"
    by (simp add: print_revision_json_def assms n Let_def str_field_format_def)
  from b n m t j show ?thesis by simp
qed

text \<open>The old style code 8 is mapped to \<open>0xF\<close>, itself the index of a valid slot.\<close>

theorem old_style_stays_old_witness:
  "\<not> revision_new_style 8 \<and> map_old_to_new 8 = Inr 0xF \<and>
   \<not> bit (0xF :: 32 word) 23 \<and> \<not> revision_new_style 0xF \<and> map_old_to_new 0xF = Inr 0x11001F \<and>
   map_old_to_new 0xF \<noteq> Inr 0xF \<and>
   fst (print_revision_text 8) ! 1 = ''    Style           : Old''"
proof -
  have h1: "\<not> revision_new_style 8"
    by (simp add: revision_new_style_def)
  have h2: "map_old_to_new 8 = Inr 0xF"
    by (simp add: revision_new_style_def map_old_to_new_def ARRAY_CNT_def
        old_revision_map_values OLD_REV_NOT_VALID_def)
  have h3: "map_old_to_new 0xF = Inr 0x11001F"
    by (simp add: revision_new_style_def map_old_to_new_def ARRAY_CNT_def
        old_revision_map_values OLD_REV_NOT_VALID_def)
  from old_style_stays_old [OF h1 h2] h1 h2 h3 show ?thesis by simp
qed

section \<open>The megabytes of a code\<close>

text \<open>
  Claim C3. The memory index is at most 7. When it is 6, the length of the table, the
  test \<^verbatim>\<open>index > ARRAY_CNT(mem_mbytes_map)\<close> is false and
  \<^verbatim>\<open>mem_mbytes_map[index]\<close> reads the element one past the six the table has; such
  codes exist. For an index below 6 the read is inside the table, and for 7 the test
  returns 0 without a read.
\<close>

theorem physical_memory_mbytes_reads_past_end:
  "physical_memory_index c \<le> 7 \<and>
   (physical_memory_index c = 6 \<longrightarrow>
      int_of_unsigned (physical_memory_index c) = int (ARRAY_CNT mem_mbytes_map) \<and>
      \<not> size_t_of_int (int_of_unsigned (physical_memory_index c)) > ARRAY_CNT mem_mbytes_map \<and>
      array_read mem_mbytes_map (int_of_unsigned (physical_memory_index c)) = Inl ReadOutOfBounds \<and>
      physical_memory_mbytes c = Inl ReadOutOfBounds) \<and>
   (physical_memory_index c < 6 \<longrightarrow>
      physical_memory_mbytes c = Inr (mem_mbytes_map ! unat (physical_memory_index c))) \<and>
   (physical_memory_index c = 7 \<longrightarrow> physical_memory_mbytes c = Inr 0) \<and>
   (physical_memory_mbytes c = Inl ReadOutOfBounds \<longleftrightarrow> physical_memory_index c = 6) \<and>
   (\<exists>code. physical_memory_index code = 6)"
proof -
  have le: "physical_memory_index c \<le> 7"
    using physical_memory_index_le [of c] by (simp add: word_le_nat_alt)
  have i: "int_of_unsigned (physical_memory_index c) = uint (physical_memory_index c)"
    unfolding physical_memory_index_def by (rule int_of_unsigned_field) simp
  have six: "physical_memory_index c = 6 \<longleftrightarrow> unat (physical_memory_index c) = 6"
    using word_unat_eq_iff [of "physical_memory_index c" 6] by simp
  have seven: "physical_memory_index c = 7 \<longleftrightarrow> unat (physical_memory_index c) = 7"
    using word_unat_eq_iff [of "physical_memory_index c" 7] by simp
  have lt: "physical_memory_index c < 6 \<longleftrightarrow> unat (physical_memory_index c) < 6"
    by (simp add: word_less_nat_alt)
  have a: "physical_memory_index c = 6 \<Longrightarrow>
      int_of_unsigned (physical_memory_index c) = int (ARRAY_CNT mem_mbytes_map) \<and>
      \<not> size_t_of_int (int_of_unsigned (physical_memory_index c)) > ARRAY_CNT mem_mbytes_map \<and>
      array_read mem_mbytes_map (int_of_unsigned (physical_memory_index c)) = Inl ReadOutOfBounds"
    by (simp add: int_of_unsigned_def size_t_of_int_def ARRAY_CNT_def mem_mbytes_map_def
        array_read_def)
  have e: "physical_memory_index 0x00E00000 = 6"
    by (simp add: physical_memory_index_def)
  show ?thesis
    using le a e by (auto simp: physical_memory_mbytes_eq six seven lt)
qed

text \<open>Codes with the memory indices 6, 2 and 7.\<close>

theorem physical_memory_mbytes_reads_past_end_witness:
  "physical_memory_index 0x00E00000 = 6 \<and>
   physical_memory_mbytes 0x00E00000 = Inl ReadOutOfBounds \<and>
   physical_memory_index 0x00A02082 < 6 \<and>
   physical_memory_mbytes 0x00A02082 = Inr 1024 \<and>
   physical_memory_index 0x00F00000 = 7 \<and>
   physical_memory_mbytes 0x00F00000 = Inr 0"
  using physical_memory_mbytes_reads_past_end [of "0x00E00000"]
    physical_memory_mbytes_reads_past_end [of "0x00A02082"]
    physical_memory_mbytes_reads_past_end [of "0x00F00000"]
  by (simp add: physical_memory_index_def mem_mbytes_map_def)

text \<open>
  Claim C4. The megabytes of a code are meant to be 0 for the memory indices 6 and 7.
  The new style code \<open>0x00E00000\<close> has memory index 6: \<^verbatim>\<open>map_old_to_new\<close> keeps it,
  and \<^verbatim>\<open>physical_memory_mbytes\<close> does not return 0 for it but reads past the end of
  the table, which is where printing the code stops.
\<close>

theorem physical_memory_mbytes_index_6:
  "map_old_to_new 0x00E00000 = Inr 0x00E00000 \<and>
   physical_memory_index 0x00E00000 = 6 \<and>
   physical_memory_mbytes 0x00E00000 = Inl ReadOutOfBounds \<and>
   physical_memory_mbytes 0x00E00000 \<noteq> Inr 0 \<and>
   physical_memory_str 0x00E00000 8 = Inl ReadOutOfBounds \<and>
   snd (print_revision_text 0x00E00000) = Inl ReadOutOfBounds"
proof -
  have m: "map_old_to_new 0x00E00000 = Inr 0x00E00000"
    by (simp add: map_old_to_new_def revision_new_style_def)
  have i: "physical_memory_index 0x00E00000 = 6"
    by (simp add: physical_memory_index_def)
  have p: "physical_memory_mbytes 0x00E00000 = Inl ReadOutOfBounds"
    by (simp add: physical_memory_mbytes_eq i)
  have s: "physical_memory_str 0x00E00000 8 = Inl ReadOutOfBounds"
    by (simp add: physical_memory_str_def p)
  have t: "type_str 0x00E00000 = Inr ''A''"
    by (simp add: type_str_def type_index_def lut_to_str_def lut_to_str_with_invalid_def
        ARRAY_CNT_def type_map_def int_of_unsigned_def array_read_def)
  have r: "revision_str 0x00E00000 = Inr ''1.0''"
    by (simp add: revision_str_def revision_index_def lut_to_str_with_invalid_def
        ARRAY_CNT_def revision_map_def int_of_unsigned_def array_read_def)
  have c: "processor_str 0x00E00000 = Inr ''BCM2835''"
    by (simp add: processor_str_def processor_index_def lut_to_str_def
        lut_to_str_with_invalid_def ARRAY_CNT_def processor_map_def int_of_unsigned_def
        array_read_def)
  have q: "snd (print_revision_text 0x00E00000) = Inl ReadOutOfBounds"
    by (simp add: print_revision_text_def m Let_def revision_new_style_def t r c s)
  from m i p s q show ?thesis by simp
qed

section \<open>The slots of the old style table\<close>

lemma populated_slots_values:
  "populated_slots = [2, 3, 4, 5, 6, 7, 8, 9, 13, 14, 15, 16, 17, 18, 19, 20, 21]"
  by (simp add: populated_slots_def ARRAY_CNT_def old_revision_map_values
      OLD_REV_NOT_VALID_def upt_rec)

text \<open>
  Claim C7, as stated: the table would have 19 slots that hold a revision code. It has
  22 slots, of which 5 are \<^verbatim>\<open>OLD_REV_NOT_VALID\<close>.
\<close>

theorem populated_slots_not_19: "length populated_slots \<noteq> 19"
  by (simp add: populated_slots_values)

lemma map_old_to_new_small:
  assumes "unat c < 22"
  shows "map_old_to_new c =
           (if c \<in> {0, 1, 10, 11, 12} then Inl ExitFailure
            else Inr (old_revision_map ! unat c))"
  using word_small_cases [OF assms]
  by (elim insertE emptyE)
    (simp_all add: revision_new_style_def map_old_to_new_def ARRAY_CNT_def
      old_revision_map_values OLD_REV_NOT_VALID_def)

text \<open>
  Claim C7, amended. The table of old style codes has 22 slots, of which exactly 17 hold a
  revision code (2 to 9 and 13 to 21) and exactly the slots 0, 1, 10, 11 and 12 hold
  \<^verbatim>\<open>OLD_REV_NOT_VALID\<close>. \<^verbatim>\<open>map_old_to_new\<close> returns the entry for each of the 17
  and exits with a failure for each of the 5.
\<close>

theorem populated_old_style_slots:
  "length old_revision_map = 22 \<and>
   length populated_slots = 17 \<and>
   populated_slots = [2, 3, 4, 5, 6, 7, 8, 9, 13, 14, 15, 16, 17, 18, 19, 20, 21] \<and>
   (unat c < 22 \<longrightarrow>
      (old_revision_map ! unat c = OLD_REV_NOT_VALID \<longleftrightarrow> unat c \<in> {0, 1, 10, 11, 12})) \<and>
   (unat c \<in> set populated_slots \<longrightarrow>
      map_old_to_new c = Inr (old_revision_map ! unat c) \<and>
      old_revision_map ! unat c \<noteq> OLD_REV_NOT_VALID) \<and>
   (unat c \<in> {0, 1, 10, 11, 12} \<longrightarrow> map_old_to_new c = Inl ExitFailure)"
proof -
  have a: "old_revision_map ! unat c = OLD_REV_NOT_VALID \<longleftrightarrow> unat c \<in> {0, 1, 10, 11, 12}"
    if "unat c < 22"
    using word_small_cases [OF that]
    by (elim insertE emptyE) (simp_all add: old_revision_map_values OLD_REV_NOT_VALID_def)
  have s: "unat c < 22" if "unat c \<in> set populated_slots"
    using that by (auto simp: populated_slots_values)
  have u: "c \<in> {0, 1, 10, 11, 12} \<longleftrightarrow> unat c \<in> {0, 1, 10, 11, 12}"
    using word_unat_eq_iff [of c 0] word_unat_eq_iff [of c 1] word_unat_eq_iff [of c 10]
      word_unat_eq_iff [of c 11] word_unat_eq_iff [of c 12]
    by simp
  have p: "map_old_to_new c = Inr (old_revision_map ! unat c) \<and>
      old_revision_map ! unat c \<noteq> OLD_REV_NOT_VALID"
    if "unat c \<in> set populated_slots"
  proof -
    from that have "unat c \<notin> {0, 1, 10, 11, 12}" by (auto simp: populated_slots_values)
    with s [OF that] show ?thesis
      using a [of] map_old_to_new_small [of c] u by simp
  qed
  have f: "map_old_to_new c = Inl ExitFailure" if "unat c \<in> {0, 1, 10, 11, 12}"
  proof -
    from that have "unat c < 22" by auto
    with that show ?thesis using map_old_to_new_small [of c] u by simp
  qed
  show ?thesis
    using a p f by (simp add: length_old_revision_map populated_slots_values)
qed

text \<open>Slot 2 holds a code, slot 10 does not.\<close>

theorem populated_old_style_slots_witness:
  "unat (2 :: 32 word) < 22 \<and> unat (2 :: 32 word) \<in> set populated_slots \<and>
   map_old_to_new 2 = Inr 0x10010 \<and>
   unat (10 :: 32 word) \<in> {0, 1, 10, 11, 12 :: nat} \<and> map_old_to_new 10 = Inl ExitFailure \<and>
   old_revision_map ! unat (10 :: 32 word) = OLD_REV_NOT_VALID"
proof -
  have h2: "unat (2 :: 32 word) \<in> set populated_slots"
    by (simp add: populated_slots_values)
  have h10: "unat (10 :: 32 word) \<in> {0, 1, 10, 11, 12 :: nat}"
    by simp
  have v: "old_revision_map ! unat (2 :: 32 word) = 0x10010"
    "old_revision_map ! unat (10 :: 32 word) = OLD_REV_NOT_VALID"
    by (simp_all add: old_revision_map_values OLD_REV_NOT_VALID_def)
  from populated_old_style_slots [of 2] h2 have "map_old_to_new 2 = Inr 0x10010"
    by (simp only: v)
  moreover from populated_old_style_slots [of 10] h10 have "map_old_to_new 10 = Inl ExitFailure"
    by blast
  ultimately show ?thesis using h2 h10 v by simp
qed

section \<open>Lookup tables\<close>

text \<open>
  The index is an \<^verbatim>\<open>int\<close>, and \<^verbatim>\<open>index < lut_count\<close> is the only test before the
  read. Every call in the program passes a masked field of the code, which is never
  negative; a negative index would be read in front of the table.
\<close>

lemma lut_negative_index:
  "index < 0 \<Longrightarrow> 0 \<le> lut_count \<Longrightarrow>
     lut_to_str_with_invalid lut lut_count index invalid_index invalid_index_str =
       Inl ReadOutOfBounds"
  by (simp add: lut_to_str_with_invalid_def array_read_def)

lemma lut_read:
  assumes "0 \<le> index"
  shows "lut_to_str_with_invalid lut (int (ARRAY_CNT lut)) index invalid_index invalid_index_str =
     Inr (if index < int (length lut) then lut ! nat index
          else if invalid_index_str \<noteq> None \<and> index = invalid_index
               then the invalid_index_str
          else ''???'')"
  using assms by (simp add: lut_to_str_with_invalid_def ARRAY_CNT_def array_read_def)

lemma lut_field:
  assumes "unat m < 2147483648"
  shows "lut_to_str_with_invalid lut (int (ARRAY_CNT lut)) (int_of_unsigned (x AND m))
           invalid_index invalid_index_str =
     Inr (if unat (x AND m) < length lut then lut ! unat (x AND m)
          else if invalid_index_str \<noteq> None \<and> uint (x AND m) = invalid_index
               then the invalid_index_str
          else ''???'')"
proof -
  have i: "int_of_unsigned (x AND m) = uint (x AND m)"
    using assms by (rule int_of_unsigned_field)
  have n: "nat (uint (x AND m)) = unat (x AND m)"
    by simp
  have l: "uint (x AND m) < int (length lut) \<longleftrightarrow> unat (x AND m) < length lut"
    by (metis n nat_less_iff uint_ge_0)
  show ?thesis
    unfolding i by (subst lut_read) (simp_all add: l)
qed

lemma type_str_eq:
  "type_str c =
     Inr (if unat (type_index c) < 22 then type_map ! unat (type_index c) else ''???'')"
proof -
  have l: "length type_map = 22" by (simp add: type_map_def)
  show ?thesis
    unfolding type_str_def lut_to_str_def type_index_def
    by (subst lut_field) (simp_all add: l)
qed

lemma processor_str_eq:
  "processor_str c =
     Inr (if unat (processor_index c) < 4 then processor_map ! unat (processor_index c)
          else ''???'')"
proof -
  have l: "length processor_map = 4" by (simp add: processor_map_def)
  show ?thesis
    unfolding processor_str_def lut_to_str_def processor_index_def
    by (subst lut_field) (simp_all add: l)
qed

lemma uint_eq_15: "uint (w :: 32 word) = 15 \<longleftrightarrow> w = 15"
  using word_uint_eq_iff [of w 15] by simp

lemma manufacturer_str_eq:
  "manufacturer_str c =
     Inr (if unat (manufacturer_index c) < 6
          then manufacturer_map ! unat (manufacturer_index c)
          else if manufacturer_index c = 15 then ''Qisda'' else ''???'')"
proof -
  have l: "length manufacturer_map = 6" by (simp add: manufacturer_map_def)
  have q: "int_of_unsigned (drop_bit 16 QISDA) = 15"
    by (simp add: QISDA_def int_of_unsigned_def)
  show ?thesis
    unfolding manufacturer_str_def Let_def manufacturer_index_def q
    by (subst lut_field) (simp_all add: l uint_eq_15)
qed

lemma revision_str_eq:
  "revision_str c =
     Inr (if unat (revision_index c) < 6 then revision_map ! unat (revision_index c)
          else if revision_index c = 15 then ''2.0'' else ''???'')"
proof -
  have l: "length revision_map = 6" by (simp add: revision_map_def)
  have q: "int_of_unsigned (drop_bit 0 REV_2_0) = 15"
    by (simp add: REV_2_0_def int_of_unsigned_def)
  show ?thesis
    unfolding revision_str_def Let_def revision_index_def q
    by (subst lut_field) (simp_all add: l uint_eq_15)
qed

text \<open>
  Claim C2. Called with the length of the table, \<^verbatim>\<open>lut_to_str_with_invalid\<close> returns
  \<^verbatim>\<open>lut[index]\<close> when \<open>index\<close> is below the length, the substitute string when one is
  given and \<open>index\<close> is the substitute's index, and \<^verbatim>\<open>???\<close> otherwise; for an index
  that is a position (not negative) the read is the element of the table at that
  position. So it is for the four tables of the program, whatever the code: the
  manufacturer and the revision have six entries each and the substitutes \<^verbatim>\<open>Qisda\<close>
  and \<^verbatim>\<open>2.0\<close> at index 15, the type and the processor have no substitute.
\<close>

theorem lut_to_str_with_invalid_resolve:
  "lut_to_str_with_invalid lut (int (ARRAY_CNT lut)) index invalid_index invalid_index_str =
     (if index < int (length lut) then array_read lut index
      else if invalid_index_str \<noteq> None \<and> index = invalid_index
           then Inr (the invalid_index_str)
      else Inr ''???'') \<and>
   (0 \<le> index \<longrightarrow>
      lut_to_str_with_invalid lut (int (ARRAY_CNT lut)) index invalid_index invalid_index_str =
        Inr (if index < int (length lut) then lut ! nat index
             else if invalid_index_str \<noteq> None \<and> index = invalid_index
                  then the invalid_index_str
             else ''???'')) \<and>
   manufacturer_str c =
     Inr (if unat (manufacturer_index c) < length manufacturer_map
          then manufacturer_map ! unat (manufacturer_index c)
          else if manufacturer_index c = 15 then ''Qisda'' else ''???'') \<and>
   revision_str c =
     Inr (if unat (revision_index c) < length revision_map
          then revision_map ! unat (revision_index c)
          else if revision_index c = 15 then ''2.0'' else ''???'') \<and>
   type_str c =
     Inr (if unat (type_index c) < length type_map then type_map ! unat (type_index c)
          else ''???'') \<and>
   processor_str c =
     Inr (if unat (processor_index c) < length processor_map
          then processor_map ! unat (processor_index c)
          else ''???'') \<and>
   length manufacturer_map = 6 \<and> length revision_map = 6 \<and>
   lut_to_str_with_invalid manufacturer_map (int (ARRAY_CNT manufacturer_map)) 15 15
     (Some ''Qisda'') = Inr ''Qisda'' \<and>
   lut_to_str_with_invalid revision_map (int (ARRAY_CNT revision_map)) 15 15
     (Some ''2.0'') = Inr ''2.0''"
proof -
  have l: "length manufacturer_map = 6" "length revision_map = 6" "length type_map = 22"
    "length processor_map = 4"
    by (simp_all add: manufacturer_map_def revision_map_def type_map_def processor_map_def)
  have m: "lut_to_str_with_invalid manufacturer_map (int (ARRAY_CNT manufacturer_map)) 15 15
     (Some ''Qisda'') = Inr ''Qisda''"
    by (subst lut_read) (simp_all add: l)
  have r: "lut_to_str_with_invalid revision_map (int (ARRAY_CNT revision_map)) 15 15
     (Some ''2.0'') = Inr ''2.0''"
    by (subst lut_read) (simp_all add: l)
  have a: "lut_to_str_with_invalid lut (int (ARRAY_CNT lut)) index invalid_index
      invalid_index_str =
     (if index < int (length lut) then array_read lut index
      else if invalid_index_str \<noteq> None \<and> index = invalid_index
           then Inr (the invalid_index_str)
      else Inr ''???'')"
    by (simp add: lut_to_str_with_invalid_def ARRAY_CNT_def)
  show ?thesis
    unfolding l using a lut_read [of index lut invalid_index invalid_index_str] m r
    by (simp add: manufacturer_str_eq revision_str_eq type_str_eq processor_str_eq l)
qed

text \<open>The manufacturer table at 15, 1 and 6, and the type table at 15.\<close>

theorem lut_to_str_with_invalid_resolve_witness:
  "(0 :: int) \<le> 15 \<and>
   lut_to_str_with_invalid manufacturer_map (int (ARRAY_CNT manufacturer_map)) 15 15
     (Some ''Qisda'') = Inr ''Qisda'' \<and>
   lut_to_str_with_invalid manufacturer_map (int (ARRAY_CNT manufacturer_map)) 1 15
     (Some ''Qisda'') = Inr ''Egoman'' \<and>
   lut_to_str_with_invalid manufacturer_map (int (ARRAY_CNT manufacturer_map)) 6 15
     (Some ''Qisda'') = Inr ''???'' \<and>
   lut_to_str_with_invalid type_map (int (ARRAY_CNT type_map)) 15 15 None =
     Inr ''Internal use only''"
proof -
  have q: "lut_to_str_with_invalid manufacturer_map (int (ARRAY_CNT manufacturer_map)) 15 15
     (Some ''Qisda'') = Inr ''Qisda''"
    using lut_to_str_with_invalid_resolve [where index = 15 and lut = manufacturer_map
      and invalid_index = 15 and invalid_index_str = "Some ''Qisda''",
      THEN conjunct2, THEN conjunct1]
    by (simp add: manufacturer_map_def)
  have e: "lut_to_str_with_invalid manufacturer_map (int (ARRAY_CNT manufacturer_map)) 1 15
     (Some ''Qisda'') = Inr ''Egoman''"
    using lut_to_str_with_invalid_resolve [where index = 1 and lut = manufacturer_map
      and invalid_index = 15 and invalid_index_str = "Some ''Qisda''",
      THEN conjunct2, THEN conjunct1]
    by (simp add: manufacturer_map_def)
  have u: "lut_to_str_with_invalid manufacturer_map (int (ARRAY_CNT manufacturer_map)) 6 15
     (Some ''Qisda'') = Inr ''???''"
    using lut_to_str_with_invalid_resolve [where index = 6 and lut = manufacturer_map
      and invalid_index = 15 and invalid_index_str = "Some ''Qisda''",
      THEN conjunct2, THEN conjunct1]
    by (simp add: manufacturer_map_def)
  have t: "lut_to_str_with_invalid type_map (int (ARRAY_CNT type_map)) 15 15 None =
     Inr ''Internal use only''"
    using lut_to_str_with_invalid_resolve [where index = 15 and lut = type_map
      and invalid_index = 15 and invalid_index_str = None,
      THEN conjunct2, THEN conjunct1]
    by (simp add: type_map_def)
  from q e u t show ?thesis by simp
qed

section \<open>Two codes decoded\<close>

lemma field_lines:
  "field_format ''Style'' v = ''    Style           : '' @ v"
  "field_format ''Overvoltage'' v = ''    Overvoltage     : '' @ v"
  "field_format ''OTP Programming'' v = ''    OTP Programming : '' @ v"
  "field_format ''OTP Reading'' v = ''    OTP Reading     : '' @ v"
  "field_format ''Warranty'' v = ''    Warranty        : '' @ v"
  "field_format ''Type/Model'' v = ''    Type/Model      : '' @ v"
  "field_format ''Revision'' v = ''    Revision        : '' @ v"
  "field_format ''Processor/SOC'' v = ''    Processor/SOC   : '' @ v"
  "field_format ''Memory'' v = ''    Memory          : '' @ v"
  "field_format ''Manufacturer'' v = ''    Manufacturer    : '' @ v"
  by (simp_all add: field_format_def printf_left16_def numeral_eq_Suc)

lemma old_0002_mapped: "map_old_to_new 0x0002 = Inr 0x10010"
  by (simp add: map_old_to_new_def revision_new_style_def ARRAY_CNT_def old_revision_map_values OLD_REV_NOT_VALID_def)

lemma old_0002_style: "\<not> revision_new_style 0x10010"
  by (simp add: revision_new_style_def)

lemma old_0002_type: "type_str 0x10010 = Inr ''B''"
  by (simp add: type_str_eq type_index_def type_map_def)

lemma old_0002_revision: "revision_str 0x10010 = Inr ''1.0''"
  by (simp add: revision_str_eq revision_index_def revision_map_def)

lemma old_0002_mbytes: "physical_memory_mbytes 0x10010 = Inr 256"
  by (simp add: physical_memory_mbytes_eq physical_memory_index_def mem_mbytes_map_def)

lemma old_0002_memory: "physical_memory_str 0x10010 8 = Inr ''256MB''"
  by (simp add: physical_memory_str_eq [OF old_0002_mbytes] result_str_eq dec_digits.simps)

lemma old_0002_manufacturer: "manufacturer_str 0x10010 = Inr ''Egoman''"
  by (simp add: manufacturer_str_eq manufacturer_index_def manufacturer_map_def)

lemma old_0002_text: "print_revision_text 0x0002 =
     ([''Revision code 0x2 interpreted:'',
       ''    Style           : Old'',
       ''    Type/Model      : B'',
       ''    Revision        : 1.0'',
       ''    Memory          : 256MB'',
       ''    Manufacturer    : Egoman''], Inr EXIT_SUCCESS)"
  by (simp add: print_revision_text_def old_0002_mapped old_0002_style old_0002_type old_0002_revision old_0002_memory old_0002_manufacturer Let_def field_lines printf_X_def hex_digits.simps)

lemma old_0002_json: "print_revision_json 0x0002 =
     ([''{'',
       ''    revision_code: '' @ [CHR 0x22] @ ''0x2'' @ [CHR 0x22] @ '','',
       ''    style: '' @ [CHR 0x22] @ ''old'' @ [CHR 0x22] @ '','',
       ''    type: '' @ [CHR 0x22] @ ''B'' @ [CHR 0x22] @ '','',
       ''    revision: '' @ [CHR 0x22] @ ''1.0'' @ [CHR 0x22] @ '','',
       ''    memory: '' @ [CHR 0x22] @ ''256MB'' @ [CHR 0x22] @ '','',
       ''    manufacturer: '' @ [CHR 0x22] @ ''Egoman'' @ [CHR 0x22],
       ''}''], Inr EXIT_SUCCESS)"
  by (simp add: print_revision_json_def old_0002_mapped old_0002_style old_0002_type old_0002_revision old_0002_memory old_0002_manufacturer Let_def str_field_format_def printf_X_def hex_digits.simps)

text \<open>
  Claim C9. The old style code \<open>0x0002\<close> is mapped to \<open>0x10010\<close>, which is old style,
  of type \<^verbatim>\<open>B\<close>, revision \<^verbatim>\<open>1.0\<close>, with \<^verbatim>\<open>256MB\<close> of memory, made by
  \<^verbatim>\<open>Egoman\<close>. The text and the JSON output have these four fields and the style, and
  neither the four permission fields nor the processor.
\<close>

theorem decode_old_0002:
  "map_old_to_new 0x0002 = Inr 0x10010 \<and>
   \<not> revision_new_style 0x10010 \<and>
   type_str 0x10010 = Inr ''B'' \<and>
   revision_str 0x10010 = Inr ''1.0'' \<and>
   physical_memory_mbytes 0x10010 = Inr 256 \<and>
   physical_memory_str 0x10010 8 = Inr ''256MB'' \<and>
   manufacturer_str 0x10010 = Inr ''Egoman'' \<and>
   print_revision_text 0x0002 =
     ([''Revision code 0x2 interpreted:'',
       ''    Style           : Old'',
       ''    Type/Model      : B'',
       ''    Revision        : 1.0'',
       ''    Memory          : 256MB'',
       ''    Manufacturer    : Egoman''], Inr EXIT_SUCCESS) \<and>
   print_revision_json 0x0002 =
     ([''{'',
       ''    revision_code: '' @ [CHR 0x22] @ ''0x2'' @ [CHR 0x22] @ '','',
       ''    style: '' @ [CHR 0x22] @ ''old'' @ [CHR 0x22] @ '','',
       ''    type: '' @ [CHR 0x22] @ ''B'' @ [CHR 0x22] @ '','',
       ''    revision: '' @ [CHR 0x22] @ ''1.0'' @ [CHR 0x22] @ '','',
       ''    memory: '' @ [CHR 0x22] @ ''256MB'' @ [CHR 0x22] @ '','',
       ''    manufacturer: '' @ [CHR 0x22] @ ''Egoman'' @ [CHR 0x22],
       ''}''], Inr EXIT_SUCCESS)"
  using old_0002_mapped old_0002_style old_0002_type old_0002_revision old_0002_mbytes
    old_0002_memory old_0002_manufacturer old_0002_text old_0002_json
  by (intro conjI)

lemma new_A02082_kept: "map_old_to_new 0x00A02082 = Inr 0x00A02082"
  by (simp add: map_old_to_new_def revision_new_style_def)

lemma new_A02082_style: "revision_new_style 0x00A02082"
  by (simp add: revision_new_style_def)

lemma new_A02082_type: "type_index 0x00A02082 = 0x08 \<and> type_str 0x00A02082 = Inr ''3B''"
  by (simp add: type_str_eq type_index_def type_map_def)

lemma new_A02082_revision: "revision_index 0x00A02082 = 2 \<and> revision_str 0x00A02082 = Inr ''1.2''"
  by (simp add: revision_str_eq revision_index_def revision_map_def)

lemma new_A02082_mbytes: "physical_memory_index 0x00A02082 = 2 \<and> physical_memory_mbytes 0x00A02082 = Inr 1024"
  by (simp add: physical_memory_mbytes_eq physical_memory_index_def mem_mbytes_map_def)

lemma new_A02082_memory: "physical_memory_str 0x00A02082 8 = Inr ''1GB''"
  by (simp add: physical_memory_str_eq [OF new_A02082_mbytes [THEN conjunct2]] result_str_eq dec_digits.simps)

lemma new_A02082_manufacturer: "manufacturer_index 0x00A02082 = 0 \<and> manufacturer_str 0x00A02082 = Inr ''Sony UK''"
  by (simp add: manufacturer_str_eq manufacturer_index_def manufacturer_map_def)

lemma new_A02082_processor: "processor_index 0x00A02082 = 2 \<and> processor_str 0x00A02082 = Inr ''BCM2837''"
  by (simp add: processor_str_eq processor_index_def processor_map_def)

lemma new_A02082_flags:
  "overvoltage_allowed 0x00A02082 \<and> otp_programming_allowed 0x00A02082 \<and>
   otp_reading_allowed 0x00A02082 \<and> warranty_intact 0x00A02082"
  by (simp add: overvoltage_allowed_def otp_programming_allowed_def otp_reading_allowed_def
      warranty_intact_def)

lemma new_A02082_text: "print_revision_text 0x00A02082 =
     ([''Revision code 0xA02082 interpreted:'',
       ''    Style           : New'',
       ''    Overvoltage     : Allowed'',
       ''    OTP Programming : Allowed'',
       ''    OTP Reading     : Allowed'',
       ''    Warranty        : Intact'',
       ''    Type/Model      : 3B'',
       ''    Revision        : 1.2'',
       ''    Processor/SOC   : BCM2837'',
       ''    Memory          : 1GB'',
       ''    Manufacturer    : Sony UK''], Inr EXIT_SUCCESS)"
  by (simp add: print_revision_text_def new_A02082_kept new_A02082_style new_A02082_type new_A02082_revision new_A02082_memory new_A02082_manufacturer new_A02082_processor new_A02082_flags Let_def field_lines printf_X_def
      hex_digits.simps overvoltage_allowed_str_def otp_programming_allowed_str_def
      otp_reading_allowed_str_def warranty_intact_str_def)

text \<open>
  Claim C8, as stated: the processor index of \<open>0x00A02082\<close> would be 0. Bits 12 to 15
  of the code are \<open>0010\<close>.
\<close>

theorem processor_index_A02082_not_0: "processor_index 0x00A02082 \<noteq> 0"
  by (simp add: processor_index_def)

lemma new_A02082_json: "print_revision_json 0x00A02082 =
     ([''{'',
       ''    revision_code: '' @ [CHR 0x22] @ ''0xA02082'' @ [CHR 0x22] @ '','',
       ''    style: '' @ [CHR 0x22] @ ''new'' @ [CHR 0x22] @ '','',
       ''    overvoltage_allowed: true,'',
       ''    otp_programming_allowed: true,'',
       ''    otp_reading_allowed: true,'',
       ''    warranty_intact: true,'',
       ''    type: '' @ [CHR 0x22] @ ''3B'' @ [CHR 0x22] @ '','',
       ''    revision: '' @ [CHR 0x22] @ ''1.2'' @ [CHR 0x22] @ '','',
       ''    processor: '' @ [CHR 0x22] @ ''BCM2837'' @ [CHR 0x22] @ '','',
       ''    memory: '' @ [CHR 0x22] @ ''1GB'' @ [CHR 0x22] @ '','',
       ''    manufacturer: '' @ [CHR 0x22] @ ''Sony UK'' @ [CHR 0x22],
       ''}''], Inr EXIT_SUCCESS)"
  by (simp add: print_revision_json_def new_A02082_kept new_A02082_style new_A02082_type
      new_A02082_revision new_A02082_memory new_A02082_manufacturer new_A02082_processor
      new_A02082_flags Let_def str_field_format_def json_field_format_def bool_json_def
      printf_X_def hex_digits.simps)

text \<open>
  Claim C8, amended. The code \<open>0x00A02082\<close> is new style and kept as it is. Its type
  index is 8 (\<^verbatim>\<open>3B\<close>), its memory index 2 (\<^verbatim>\<open>1GB\<close>), its processor index 2
  (\<^verbatim>\<open>BCM2837\<close>), its manufacturer index 0 (\<^verbatim>\<open>Sony UK\<close>) and its revision index 2
  (\<^verbatim>\<open>1.2\<close>); the bits 31, 30, 29 and 25 are clear, so overvoltage and both OTP
  accesses are allowed and the warranty is intact.
\<close>

theorem decode_new_A02082:
  "map_old_to_new 0x00A02082 = Inr 0x00A02082 \<and>
   revision_new_style 0x00A02082 \<and>
   (type_index 0x00A02082 = 0x08 \<and> type_str 0x00A02082 = Inr ''3B'') \<and>
   (revision_index 0x00A02082 = 2 \<and> revision_str 0x00A02082 = Inr ''1.2'') \<and>
   (physical_memory_index 0x00A02082 = 2 \<and> physical_memory_mbytes 0x00A02082 = Inr 1024) \<and>
   physical_memory_str 0x00A02082 8 = Inr ''1GB'' \<and>
   (processor_index 0x00A02082 = 2 \<and> processor_str 0x00A02082 = Inr ''BCM2837'') \<and>
   (manufacturer_index 0x00A02082 = 0 \<and> manufacturer_str 0x00A02082 = Inr ''Sony UK'') \<and>
   (overvoltage_allowed 0x00A02082 \<and> otp_programming_allowed 0x00A02082 \<and>
    otp_reading_allowed 0x00A02082 \<and> warranty_intact 0x00A02082) \<and>
   (\<not> bit (0x00A02082 :: 32 word) 31 \<and> \<not> bit (0x00A02082 :: 32 word) 30 \<and>
    \<not> bit (0x00A02082 :: 32 word) 29 \<and> \<not> bit (0x00A02082 :: 32 word) 25) \<and>
   print_revision_text 0x00A02082 =
     ([''Revision code 0xA02082 interpreted:'',
       ''    Style           : New'',
       ''    Overvoltage     : Allowed'',
       ''    OTP Programming : Allowed'',
       ''    OTP Reading     : Allowed'',
       ''    Warranty        : Intact'',
       ''    Type/Model      : 3B'',
       ''    Revision        : 1.2'',
       ''    Processor/SOC   : BCM2837'',
       ''    Memory          : 1GB'',
       ''    Manufacturer    : Sony UK''], Inr EXIT_SUCCESS) \<and>
   print_revision_json 0x00A02082 =
     ([''{'',
       ''    revision_code: '' @ [CHR 0x22] @ ''0xA02082'' @ [CHR 0x22] @ '','',
       ''    style: '' @ [CHR 0x22] @ ''new'' @ [CHR 0x22] @ '','',
       ''    overvoltage_allowed: true,'',
       ''    otp_programming_allowed: true,'',
       ''    otp_reading_allowed: true,'',
       ''    warranty_intact: true,'',
       ''    type: '' @ [CHR 0x22] @ ''3B'' @ [CHR 0x22] @ '','',
       ''    revision: '' @ [CHR 0x22] @ ''1.2'' @ [CHR 0x22] @ '','',
       ''    processor: '' @ [CHR 0x22] @ ''BCM2837'' @ [CHR 0x22] @ '','',
       ''    memory: '' @ [CHR 0x22] @ ''1GB'' @ [CHR 0x22] @ '','',
       ''    manufacturer: '' @ [CHR 0x22] @ ''Sony UK'' @ [CHR 0x22],
       ''}''], Inr EXIT_SUCCESS)"
proof -
  have b: "\<not> bit (0x00A02082 :: 32 word) 31 \<and> \<not> bit (0x00A02082 :: 32 word) 30 \<and>
    \<not> bit (0x00A02082 :: 32 word) 29 \<and> \<not> bit (0x00A02082 :: 32 word) 25"
    by simp
  show ?thesis
    using new_A02082_kept new_A02082_style new_A02082_type new_A02082_revision
      new_A02082_mbytes new_A02082_memory new_A02082_processor new_A02082_manufacturer
      new_A02082_flags b new_A02082_text new_A02082_json
    by blast
qed

section \<open>The memory string\<close>

text \<open>
  Claim C5. For \<open>m\<close> megabytes the string is the decimal numeral of \<open>m div 1024\<close>
  followed by \<^verbatim>\<open>GB\<close> when \<open>m \<ge> 1024\<close> and the quotient is at most 9999, empty when
  the quotient is larger, and the decimal numeral of \<open>m\<close> followed by \<^verbatim>\<open>MB\<close> when
  \<open>m < 1024\<close>. The numeral printed for \<open>n\<close> denotes \<open>n\<close>, consists of digits only and
  has no leading zero. The caller's 8 bytes hold the string whole. Memory index 5 gives
  \<^verbatim>\<open>8GB\<close> and memory index 1 gives \<^verbatim>\<open>512MB\<close>.
\<close>

theorem physical_memory_str_format:
  "result_str m =
     (if 1024 \<le> unat m then
        (if unat m div 1024 \<le> 9999 then dec_digits (unat m div 1024) @ ''GB'' else [])
      else dec_digits (unat m) @ ''MB'') \<and>
   dec_value (dec_digits n) = n \<and>
   set (dec_digits n) \<subseteq> set ''0123456789'' \<and>
   (0 < n \<longrightarrow> hd (dec_digits n) \<noteq> CHR ''0'') \<and>
   (physical_memory_mbytes c = Inr m \<longrightarrow> physical_memory_str c 8 = Inr (result_str m)) \<and>
   (physical_memory_index c = 5 \<longrightarrow>
      physical_memory_mbytes c = Inr 8192 \<and> physical_memory_str c 8 = Inr ''8GB'') \<and>
   (physical_memory_index c = 1 \<longrightarrow>
      physical_memory_mbytes c = Inr 512 \<and> physical_memory_str c 8 = Inr ''512MB'')"
proof -
  have five: "physical_memory_mbytes c = Inr 8192 \<and> physical_memory_str c 8 = Inr ''8GB''"
    if "physical_memory_index c = 5"
  proof -
    have m: "physical_memory_mbytes c = Inr 8192"
      by (simp add: physical_memory_mbytes_eq that mem_mbytes_map_def)
    then show ?thesis
      by (simp add: physical_memory_str_eq [OF m] result_str_eq dec_digits.simps)
  qed
  have one: "physical_memory_mbytes c = Inr 512 \<and> physical_memory_str c 8 = Inr ''512MB''"
    if "physical_memory_index c = 1"
  proof -
    have m: "physical_memory_mbytes c = Inr 512"
      by (simp add: physical_memory_mbytes_eq that mem_mbytes_map_def)
    then show ?thesis
      by (simp add: physical_memory_str_eq [OF m] result_str_eq dec_digits.simps)
  qed
  show ?thesis
    using result_str_eq [of m] dec_value_dec_digits [of n] dec_digits_digits [of n]
      dec_digits_no_leading_zero [of n] physical_memory_str_eq [of c m] five one
    by blast
qed

text \<open>
  Codes with the memory indices 5 and 1, and the megabytes around both bounds of the
  gigabyte branch.
\<close>

theorem physical_memory_str_format_witness:
  "physical_memory_index 0x00D00000 = 5 \<and> physical_memory_mbytes 0x00D00000 = Inr 8192 \<and>
   physical_memory_str 0x00D00000 8 = Inr ''8GB'' \<and>
   physical_memory_index 0x00900000 = 1 \<and> physical_memory_mbytes 0x00900000 = Inr 512 \<and>
   physical_memory_str 0x00900000 8 = Inr ''512MB'' \<and>
   result_str 10240000 = [] \<and> result_str 10239999 = ''9999GB'' \<and>
   result_str 1023 = ''1023MB'' \<and> result_str 1024 = ''1GB'' \<and>
   (0 :: nat) < 512 \<and> hd (dec_digits 512) \<noteq> CHR ''0'' \<and> dec_value (dec_digits 512) = 512"
proof -
  have h5: "physical_memory_index 0x00D00000 = 5" and h1: "physical_memory_index 0x00900000 = 1"
    by (simp_all add: physical_memory_index_def)
  have p: "(0 :: nat) < 512" by simp
  have a: "physical_memory_mbytes 0x00D00000 = Inr 8192 \<and>
      physical_memory_str 0x00D00000 8 = Inr ''8GB''"
    using physical_memory_str_format [of 8192 512 "0x00D00000"] h5 by blast
  have b: "physical_memory_mbytes 0x00900000 = Inr 512 \<and>
      physical_memory_str 0x00900000 8 = Inr ''512MB''"
    using physical_memory_str_format [of 512 512 "0x00900000"] h1 by blast
  have c: "hd (dec_digits 512) \<noteq> CHR ''0'' \<and> dec_value (dec_digits 512) = 512"
    using physical_memory_str_format [of 512 512 "0x00900000"] p by blast
  have r1: "result_str 10240000 = []"
    using physical_memory_str_format [of 10240000 512 "0x00900000"] by simp
  have r2: "result_str 10239999 = ''9999GB''"
    using physical_memory_str_format [of 10239999 512 "0x00900000"]
    by (simp add: dec_digits.simps)
  have r3: "result_str 1023 = ''1023MB''"
    using physical_memory_str_format [of 1023 512 "0x00900000"]
    by (simp add: dec_digits.simps)
  have r4: "result_str 1024 = ''1GB''"
    using physical_memory_str_format [of 1024 512 "0x00900000"]
    by (simp add: dec_digits.simps)
  from h5 h1 p a b c r1 r2 r3 r4 show ?thesis by blast
qed

end
